theory Spec2Isabelle
  imports Main "HOL-Library.Word" "HOL-Library.Sublist"
begin

section \<open>JavaScript strings\<close>

text \<open>
  A JavaScript string is a sequence of 16-bit code units. Literals of the source are
  ASCII, so \<open>str\<close> maps each character of a literal to the code unit of the same value.
\<close>

type_synonym code_unit = "16 word"
type_synonym jsstring = "code_unit list"
type_synonym byte = "8 word"

definition str :: "string \<Rightarrow> jsstring" where
  "str s = map of_char s"

definition comma :: code_unit where
  "comma = 0x2C"

definition newline :: code_unit where
  "newline = 0xA"

text \<open>
  \<open>String.prototype.trim\<close> strips the code units that are WhiteSpace or LineTerminator
  in ECMAScript: TAB, VT, FF, SP, NBSP, ZWNBSP, the Unicode space separators, LF, CR,
  LS and PS. All of them lie in the basic plane, so the test is on one code unit.
\<close>

definition isWhiteSpace :: "code_unit \<Rightarrow> bool" where
  "isWhiteSpace c =
     (c = 0x9 \<or> c = 0xB \<or> c = 0xC \<or> c = 0x20 \<or> c = 0xA0 \<or> c = 0xFEFF
      \<or> c = 0x1680 \<or> (0x2000 \<le> c \<and> c \<le> 0x200A) \<or> c = 0x202F \<or> c = 0x205F
      \<or> c = 0x3000 \<or> c = 0xA \<or> c = 0xD \<or> c = 0x2028 \<or> c = 0x2029)"

definition trimStart :: "jsstring \<Rightarrow> jsstring" where
  "trimStart s = dropWhile isWhiteSpace s"

definition trimEnd :: "jsstring \<Rightarrow> jsstring" where
  "trimEnd s = rev (dropWhile isWhiteSpace (rev s))"

definition js_trim :: "jsstring \<Rightarrow> jsstring" where
  "js_trim s = trimEnd (trimStart s)"

text \<open>
  \<open>String.prototype.split\<close> with a one-unit separator: the scan keeps the pending
  token \<open>cur\<close>, closes it at every separator and closes the last one at the end of
  the string, so the empty string gives one empty token.
\<close>

fun split_scan :: "code_unit \<Rightarrow> jsstring \<Rightarrow> jsstring \<Rightarrow> jsstring list" where
  "split_scan sep cur [] = [cur]"
| "split_scan sep cur (c # cs) =
     (if c = sep then cur # split_scan sep [] cs else split_scan sep (cur @ [c]) cs)"

definition js_split :: "code_unit \<Rightarrow> jsstring \<Rightarrow> jsstring list" where
  "js_split sep s = split_scan sep [] s"

section \<open>The ingredient parser of /api/analyze-image\<close>

text \<open>
  \<^verbatim>\<open>text.split(',').map(item => item.trim()).filter(item => item.length > 0)\<close>
\<close>

definition parse_ingredients :: "jsstring \<Rightarrow> jsstring list" where
  "parse_ingredients text =
     filter (\<lambda>item. length item > 0) (map (\<lambda>item. js_trim item) (js_split comma text))"

subsection \<open>The parser as the specification words it\<close>

text \<open>
  The specification: split on commas, trim whitespace from each token, discard empty
  tokens, preserve the remaining order. The fields of a text are its maximal comma-free
  runs: the run before the first comma, then the fields of what follows that comma.
\<close>

function comma_fields :: "jsstring \<Rightarrow> jsstring list" where
  "comma_fields s =
     (case dropWhile (\<lambda>c. c \<noteq> comma) s of
        [] \<Rightarrow> [takeWhile (\<lambda>c. c \<noteq> comma) s]
      | _ # rest \<Rightarrow> takeWhile (\<lambda>c. c \<noteq> comma) s # comma_fields rest)"
  by pat_completeness auto
termination
proof (relation "measure length")
  show "wf (measure length)" by simp
next
  fix s :: jsstring and x rest
  assume "dropWhile (\<lambda>c. c \<noteq> comma) s = x # rest"
  then have "length (x # rest) \<le> length s"
    by (metis length_dropWhile_le)
  then show "(rest, s) \<in> measure length" by simp
qed

declare comma_fields.simps [simp del]

definition strip_whitespace :: "jsstring \<Rightarrow> jsstring" where
  "strip_whitespace t = rev (dropWhile isWhiteSpace (rev (dropWhile isWhiteSpace t)))"

definition ingredients_spec :: "jsstring \<Rightarrow> jsstring list" where
  "ingredients_spec text = [strip_whitespace t. t \<leftarrow> comma_fields text, strip_whitespace t \<noteq> []]"

fun join_with :: "code_unit \<Rightarrow> jsstring list \<Rightarrow> jsstring" where
  "join_with sep [] = []"
| "join_with sep [t] = t"
| "join_with sep (t # u # ts) = t @ sep # join_with sep (u # ts)"

section \<open>Errors, the inference provider, the file system, responses\<close>

text \<open>
  A thrown JavaScript error, with its \<open>message\<close>. The handlers read nothing else of it.
\<close>

datatype js_error = Error (message: jsstring)

text \<open>
  The inference provider is a black box: it receives the parts of one
  \<^verbatim>\<open>generateContent\<close> request and either throws or gives the text of its response
  (\<^verbatim>\<open>await result.response\<close>, then \<^verbatim>\<open>response.text()\<close>).
\<close>

datatype part = Text jsstring | InlineData (mimeType: jsstring) (data: jsstring)

type_synonym provider = "part list \<Rightarrow> js_error + jsstring"

type_synonym filesystem = "jsstring \<rightharpoonup> byte list"

definition quoted :: "jsstring \<Rightarrow> jsstring" where
  "quoted p = [0x27] @ p @ [0x27]"

definition readFileSync :: "filesystem \<Rightarrow> jsstring \<Rightarrow> js_error + byte list" where
  "readFileSync fs p =
     (case fs p of
        None \<Rightarrow> Inl (Error (str ''ENOENT: no such file or directory, open '' @ quoted p))
      | Some bytes \<Rightarrow> Inr bytes)"

definition unlinkSync :: "filesystem \<Rightarrow> jsstring \<Rightarrow> js_error + filesystem" where
  "unlinkSync fs p =
     (case fs p of
        None \<Rightarrow> Inl (Error (str ''ENOENT: no such file or directory, unlink '' @ quoted p))
      | Some _ \<Rightarrow> Inr (fs(p := None)))"

text \<open>
  A response is a status and a payload: the JSON value given to \<^verbatim>\<open>res.json\<close>, or the
  page that the framework's final error handler renders for an error no route handled.
\<close>

datatype json = JString jsstring | JArray "json list" | JObject "(string \<times> json) list"

datatype payload = Json json | ErrorPage js_error

record response =
  status :: nat
  payload :: payload

definition send_json :: "nat \<Rightarrow> (string \<times> json) list \<Rightarrow> response" where
  "send_json code members = \<lparr>status = code, payload = Json (JObject members)\<rparr>"

definition field :: "string \<Rightarrow> response \<Rightarrow> json option" where
  "field name r =
     (case payload r of Json (JObject members) \<Rightarrow> map_of members name | _ \<Rightarrow> None)"

text \<open>
  The request bodies are JSON objects whose fields, when present, are strings, as the
  interface documents them: a body is a map from field names to strings. A value is
  truthy when it is present and not the empty string; a template literal inserts the
  string itself.
\<close>

type_synonym request_body = "string \<rightharpoonup> jsstring"

definition truthy :: "jsstring option \<Rightarrow> bool" where
  "truthy v = (case v of None \<Rightarrow> False | Some s \<Rightarrow> s \<noteq> [])"

definition to_text :: "jsstring option \<Rightarrow> jsstring" where
  "to_text v = (case v of None \<Rightarrow> str ''undefined'' | Some s \<Rightarrow> s)"

section \<open>Base64 of a buffer\<close>

definition b64char :: "nat \<Rightarrow> code_unit" where
  "b64char n =
     (if n < 26 then of_nat (0x41 + n)
      else if n < 52 then of_nat (0x61 + (n - 26))
      else if n < 62 then of_nat (0x30 + (n - 52))
      else if n = 62 then 0x2B
      else 0x2F)"

fun base64 :: "byte list \<Rightarrow> jsstring" where
  "base64 [] = []"
| "base64 [a] =
     (let x = unat a
      in [b64char (x div 4), b64char ((x mod 4) * 16), 0x3D, 0x3D])"
| "base64 [a, b] =
     (let x = unat a * 256 + unat b
      in [b64char (x div 1024), b64char ((x div 16) mod 64), b64char ((x mod 16) * 4), 0x3D])"
| "base64 (a # b # c # rest) =
     (let x = unat a * 65536 + unat b * 256 + unat c
      in [b64char (x div 262144), b64char ((x div 4096) mod 64),
          b64char ((x div 64) mod 64), b64char (x mod 64)] @ base64 rest)"

text \<open>
  The two helpers of the source. \<^verbatim>\<open>imageToBase64\<close> reads a file and encodes it;
  \<^verbatim>\<open>removeFile\<close> deletes a file and only logs a failure. No handler calls either.
\<close>

definition imageToBase64 :: "filesystem \<Rightarrow> jsstring \<Rightarrow> js_error + jsstring" where
  "imageToBase64 fs filePath =
     (case readFileSync fs filePath of
        Inl err \<Rightarrow> Inl err
      | Inr fileData \<Rightarrow> Inr (base64 fileData))"

definition removeFile :: "filesystem \<Rightarrow> jsstring \<Rightarrow> filesystem" where
  "removeFile fs filePath =
     (case unlinkSync fs filePath of
        Inl err \<Rightarrow> fs
      | Inr fs' \<Rightarrow> fs')"

section \<open>encodeURIComponent\<close>

text \<open>
  The unescaped set of \<^verbatim>\<open>encodeURIComponent\<close>: ASCII letters, digits and
  \<^verbatim>\<open>- _ . ! ~ * ' ( )\<close>. Every other code point is written as the percent-encoded
  octets of its UTF-8 form; a surrogate without its partner throws a URIError.
\<close>

definition uriUnescaped :: "code_unit \<Rightarrow> bool" where
  "uriUnescaped c =
     ((0x41 \<le> c \<and> c \<le> 0x5A) \<or> (0x61 \<le> c \<and> c \<le> 0x7A) \<or> (0x30 \<le> c \<and> c \<le> 0x39)
      \<or> c = 0x2D \<or> c = 0x5F \<or> c = 0x2E \<or> c = 0x21 \<or> c = 0x7E \<or> c = 0x2A
      \<or> c = 0x27 \<or> c = 0x28 \<or> c = 0x29)"

definition isLeadSurrogate :: "code_unit \<Rightarrow> bool" where
  "isLeadSurrogate c = (0xD800 \<le> c \<and> c \<le> 0xDBFF)"

definition isTrailSurrogate :: "code_unit \<Rightarrow> bool" where
  "isTrailSurrogate c = (0xDC00 \<le> c \<and> c \<le> 0xDFFF)"

definition surrogatePair :: "code_unit \<Rightarrow> code_unit \<Rightarrow> nat" where
  "surrogatePair lead trail = (unat lead - 0xD800) * 0x400 + (unat trail - 0xDC00) + 0x10000"

definition utf8 :: "nat \<Rightarrow> nat list" where
  "utf8 cp =
     (if cp < 0x80 then [cp]
      else if cp < 0x800 then [0xC0 + cp div 64, 0x80 + cp mod 64]
      else if cp < 0x10000 then
        [0xE0 + cp div 4096, 0x80 + (cp div 64) mod 64, 0x80 + cp mod 64]
      else
        [0xF0 + cp div 262144, 0x80 + (cp div 4096) mod 64,
         0x80 + (cp div 64) mod 64, 0x80 + cp mod 64])"

definition hexDigit :: "nat \<Rightarrow> code_unit" where
  "hexDigit n = (if n < 10 then of_nat (0x30 + n) else of_nat (0x41 + (n - 10)))"

definition percent :: "nat \<Rightarrow> jsstring" where
  "percent octet = [0x25, hexDigit (octet div 16), hexDigit (octet mod 16)]"

definition escaped :: "nat \<Rightarrow> jsstring" where
  "escaped cp = concat (map percent (utf8 cp))"

definition uri_malformed :: js_error where
  "uri_malformed = Error (str ''URI malformed'')"

fun encodeURIComponent :: "jsstring \<Rightarrow> js_error + jsstring" where
  "encodeURIComponent [] = Inr []"
| "encodeURIComponent (c # cs) =
     (if uriUnescaped c then
        (case encodeURIComponent cs of Inl e \<Rightarrow> Inl e | Inr r \<Rightarrow> Inr (c # r))
      else if isTrailSurrogate c then Inl uri_malformed
      else if isLeadSurrogate c then
        (case cs of
           [] \<Rightarrow> Inl uri_malformed
         | d # ds \<Rightarrow>
             if isTrailSurrogate d then
               (case encodeURIComponent ds of
                  Inl e \<Rightarrow> Inl e
                | Inr r \<Rightarrow> Inr (escaped (surrogatePair c d) @ r))
             else Inl uri_malformed)
      else
        (case encodeURIComponent cs of
           Inl e \<Rightarrow> Inl e
         | Inr r \<Rightarrow> Inr (escaped (unat c) @ r)))"

section \<open>Upload staging\<close>

text \<open>
  \<^verbatim>\<open>upload.single('image')\<close> runs before the handler. The file part of the form, when
  there is one, carries its declared content type and its bytes. The storage engine
  names the staged file from the clock and a random number, so the staged path is a
  parameter here.
\<close>

record file_part =
  part_mimetype :: jsstring
  content :: "byte list"

record staged_file =
  path :: jsstring
  mimetype :: jsstring

definition fileSize :: nat where
  "fileSize = 10 * 1024 * 1024"

text \<open>
  \<^verbatim>\<open>fileFilter\<close>: \<open>Inr True\<close> is \<^verbatim>\<open>cb(null, true)\<close>; the other branch gives the
  callback an error.
\<close>

definition fileFilter :: "file_part \<Rightarrow> js_error + bool" where
  "fileFilter file =
     (if prefix (str ''image/'') (part_mimetype file) then Inr True
      else Inl (Error (str ''Not an image! Please upload an image file.'')))"

text \<open>
  The middleware: with no file part the request goes on without \<^verbatim>\<open>req.file\<close>; an
  error of the filter, or a file longer than the limit, ends the middleware with that
  error and nothing stays staged; otherwise the bytes are written to the staged path.
\<close>

definition upload_single ::
    "jsstring \<Rightarrow> filesystem \<Rightarrow> file_part option \<Rightarrow> js_error + filesystem \<times> staged_file option" where
  "upload_single staged fs upload =
     (case upload of
        None \<Rightarrow> Inr (fs, None)
      | Some file \<Rightarrow>
          (case fileFilter file of
             Inl err \<Rightarrow> Inl err
           | Inr False \<Rightarrow> Inr (fs, None)
           | Inr True \<Rightarrow>
               if length (content file) > fileSize then Inl (Error (str ''File too large''))
               else Inr (fs(staged \<mapsto> content file),
                         Some \<lparr>path = staged, mimetype = part_mimetype file\<rparr>)))"

text \<open>
  The application registers no error-handling middleware, so an error that a middleware
  passes on reaches the framework's final handler. The errors above carry no status of
  their own, and the final handler answers 500.
\<close>

definition final_handler :: "js_error \<Rightarrow> response" where
  "final_handler err = \<lparr>status = 500, payload = ErrorPage err\<rparr>"

section \<open>POST /api/analyze-image\<close>

definition analyze_instruction :: jsstring where
  "analyze_instruction = str (''Analyze this food image and list all visible ingredients. '' @
     ''Return just the ingredient names as a simple comma-separated list, '' @
     ''with no additional formatting or explanation.'')"

text \<open>
  What a run of a handler leaves behind: the response, the requests made to the
  provider in order, and (for this endpoint) the file system.
\<close>

record outcome =
  reply :: response
  provider_calls :: "part list list"

record staged_outcome = outcome +
  files :: filesystem

text \<open>The body of the \<^verbatim>\<open>try\<close> block: \<open>Inl\<close> is an exception that reaches \<^verbatim>\<open>catch\<close>.\<close>

definition analyze_image_try ::
    "provider \<Rightarrow> filesystem \<Rightarrow> staged_file option
      \<Rightarrow> (js_error + response) \<times> part list list \<times> filesystem" where
  "analyze_image_try generateContent fs file =
     (case file of
        None \<Rightarrow> (Inr (send_json 400 [(''error'', JString (str ''No image file provided''))]), [], fs)
      | Some f \<Rightarrow>
          (case readFileSync fs (path f) of
             Inl err \<Rightarrow> (Inl err, [], fs)
           | Inr imageBuffer \<Rightarrow>
               let base64Image = base64 imageBuffer;
                   request = [Text analyze_instruction, InlineData (mimetype f) base64Image]
               in (case generateContent request of
                     Inl err \<Rightarrow> (Inl err, [request], fs)
                   | Inr text \<Rightarrow>
                       let ingredients = parse_ingredients text
                       in (case unlinkSync fs (path f) of
                             Inl err \<Rightarrow> (Inl err, [request], fs)
                           | Inr fs' \<Rightarrow>
                               (Inr (send_json 200
                                       [(''ingredients'', JArray (map JString ingredients))]),
                                [request], fs')))))"

definition analyze_image :: "provider \<Rightarrow> filesystem \<Rightarrow> staged_file option \<Rightarrow> staged_outcome" where
  "analyze_image generateContent fs file =
     (case analyze_image_try generateContent fs file of
        (Inr res, calls, fs') \<Rightarrow> \<lparr>reply = res, provider_calls = calls, files = fs'\<rparr>
      | (Inl error, calls, fs') \<Rightarrow>
          \<lparr>reply = send_json 500 [(''error'', JString (str ''Failed to analyze image'')),
                                   (''details'', JString (message error))],
           provider_calls = calls, files = fs'\<rparr>)"

text \<open>The route: the upload middleware, then the handler.\<close>

definition analyze_image_route ::
    "provider \<Rightarrow> jsstring \<Rightarrow> filesystem \<Rightarrow> file_part option \<Rightarrow> staged_outcome" where
  "analyze_image_route generateContent staged fs upload =
     (case upload_single staged fs upload of
        Inl err \<Rightarrow> \<lparr>reply = final_handler err, provider_calls = [], files = fs\<rparr>
      | Inr (fs', file) \<Rightarrow> analyze_image generateContent fs' file)"

section \<open>POST /api/generate-recipe\<close>

definition cuisine_clause :: "jsstring option \<Rightarrow> jsstring" where
  "cuisine_clause cuisine =
     (if truthy cuisine \<and> cuisine \<noteq> Some (str ''Any'')
      then str ''The cuisine should be '' @ to_text cuisine @ str ''.''
      else [])"

definition dietary_clause :: "jsstring option \<Rightarrow> jsstring" where
  "dietary_clause dietaryRestrictions =
     (if truthy dietaryRestrictions \<and> dietaryRestrictions \<noteq> Some (str ''None'')
      then str ''Please ensure the recipe is '' @ to_text dietaryRestrictions @ str ''.''
      else [])"

definition recipe_prompt_head :: jsstring where
  "recipe_prompt_head = str ''Create a detailed recipe using these ingredients: ''"

text \<open>The lines of the template after the two optional clauses.\<close>

definition recipe_prompt_lines :: "string list" where
  "recipe_prompt_lines =
    [''      '',
     ''      Format the recipe with these sections:'',
     ''      - Recipe Name'',
     ''      - Ingredients (with measurements)'',
     ''      - Instructions (step-by-step)'',
     ''      - Cooking Time'',
     ''      - Servings'',
     ''      - Dietary Information'',
     ''      - Tips and Variations'',
     ''      - Nutritional Information (approximate)'',
     ''      '',
     ''      Be creative but practical, and make sure all the provided ingredients are used.'']"

definition recipe_prompt_tail :: jsstring where
  "recipe_prompt_tail = concat (map (\<lambda>line. newline # str line) recipe_prompt_lines)"

definition recipe_prompt ::
    "jsstring option \<Rightarrow> jsstring option \<Rightarrow> jsstring option \<Rightarrow> jsstring" where
  "recipe_prompt ingredients cuisine dietaryRestrictions =
     recipe_prompt_head @ to_text ingredients @ str ''.'' @
     newline # str ''      '' @ cuisine_clause cuisine @
     newline # str ''      '' @ dietary_clause dietaryRestrictions @
     recipe_prompt_tail"

text \<open>The fixed words that open each optional clause.\<close>

definition cuisine_marker :: jsstring where
  "cuisine_marker = str ''The cuisine should be ''"

definition dietary_marker :: jsstring where
  "dietary_marker = str ''Please ensure the recipe is ''"

definition generate_recipe_try ::
    "provider \<Rightarrow> request_body \<Rightarrow> (js_error + response) \<times> part list list" where
  "generate_recipe_try generateContent body =
     (let ingredients = body ''ingredients'';
          cuisine = body ''cuisine'';
          dietaryRestrictions = body ''dietaryRestrictions''
      in if \<not> truthy ingredients
         then (Inr (send_json 400 [(''error'', JString (str ''Ingredients are required''))]), [])
         else
           let prompt = recipe_prompt ingredients cuisine dietaryRestrictions
           in (case generateContent [Text prompt] of
                 Inl err \<Rightarrow> (Inl err, [[Text prompt]])
               | Inr recipe \<Rightarrow>
                   (Inr (send_json 200 [(''recipe'', JString recipe)]), [[Text prompt]])))"

definition generate_recipe :: "provider \<Rightarrow> request_body \<Rightarrow> outcome" where
  "generate_recipe generateContent body =
     (case generate_recipe_try generateContent body of
        (Inr res, calls) \<Rightarrow> \<lparr>reply = res, provider_calls = calls\<rparr>
      | (Inl error, calls) \<Rightarrow>
          \<lparr>reply = send_json 500 [(''error'', JString (str ''Failed to generate recipe'')),
                                   (''details'', JString (message error))],
           provider_calls = calls\<rparr>)"

section \<open>POST /api/find-recipe-video\<close>

definition video_prompt_tail :: jsstring where
  \<open>video_prompt_tail = str (
     ''\<newline>'' @
     ''    \<newline>'' @
     ''    INSTRUCTIONS:\<newline>'' @
     ''    1. Format the query to find reliable recipe tutorials.\<newline>'' @
     ''    2. Include the exact recipe name and essential ingredients.\<newline>'' @
     ''    3. Add phrases like "recipe tutorial" or "how to make" to target instructional videos.\<newline>'' @
     ''    4. Keep it between 5-10 words for optimal YouTube search results.\<newline>'' @
     ''    5. Avoid generic terms like "best" or "top" unless part of the recipe name.\<newline>'' @
     ''    6. Focus on popular cooking terms that will yield multiple high-quality results.\<newline>'' @
     ''    \<newline>'' @
     ''    Your response should ONLY contain the optimized search query text - no explanations, quotes, or additional formatting.\<newline>'' @
     ''    Example output: "authentic chicken tikka masala recipe tutorial"'')\<close>

definition video_prompt ::
    "jsstring option \<Rightarrow> jsstring option \<Rightarrow> jsstring option \<Rightarrow> jsstring" where
  "video_prompt recipeName ingredients cuisine =
     str (''Create a precise YouTube search query for a recipe tutorial.\<newline>'' @
          ''    \<newline>'' @
          ''    Recipe: '') @ to_text recipeName @ str ''\<newline>    '' @
     (if truthy ingredients then str ''Main ingredients: '' @ to_text ingredients else []) @
     str ''\<newline>    '' @
     (if truthy cuisine then str ''Cuisine type: '' @ to_text cuisine else []) @
     video_prompt_tail"

definition embed_url :: jsstring where
  "embed_url = str ''https://www.youtube-nocookie.com/embed?search=''"

definition results_url :: jsstring where
  "results_url = str ''https://www.youtube.com/results?search_query=''"

text \<open>
  The object literal of the response evaluates \<^verbatim>\<open>encodeURIComponent(searchQuery)\<close>
  three times, in the order of its properties; the first one that throws ends the
  \<^verbatim>\<open>try\<close> block.
\<close>

definition video_links :: "jsstring \<Rightarrow> js_error + (string \<times> json) list" where
  "video_links searchQuery =
     (case encodeURIComponent searchQuery of
        Inl err \<Rightarrow> Inl err
      | Inr e1 \<Rightarrow>
          (case encodeURIComponent searchQuery of
             Inl err \<Rightarrow> Inl err
           | Inr e2 \<Rightarrow>
               (case encodeURIComponent searchQuery of
                  Inl err \<Rightarrow> Inl err
                | Inr e3 \<Rightarrow>
                    Inr [(''searchQuery'', JString searchQuery),
                         (''youtubeEmbedUrl'', JString (embed_url @ e1)),
                         (''youtubeFirstResultUrl'', JString (embed_url @ e2)),
                         (''youtubeSearchUrl'', JString (results_url @ e3))])))"

definition find_recipe_video_try ::
    "provider \<Rightarrow> request_body \<Rightarrow> (js_error + response) \<times> part list list" where
  "find_recipe_video_try generateContent body =
     (let recipeName = body ''recipeName'';
          ingredients = body ''ingredients'';
          cuisine = body ''cuisine''
      in if \<not> truthy recipeName
         then (Inr (send_json 400 [(''error'', JString (str ''Recipe name is required''))]), [])
         else
           let prompt = video_prompt recipeName ingredients cuisine
           in (case generateContent [Text prompt] of
                 Inl err \<Rightarrow> (Inl err, [[Text prompt]])
               | Inr text \<Rightarrow>
                   let searchQuery = js_trim text
                   in (case video_links searchQuery of
                         Inl err \<Rightarrow> (Inl err, [[Text prompt]])
                       | Inr members \<Rightarrow> (Inr (send_json 200 members), [[Text prompt]]))))"

definition find_recipe_video :: "provider \<Rightarrow> request_body \<Rightarrow> outcome" where
  "find_recipe_video generateContent body =
     (case find_recipe_video_try generateContent body of
        (Inr res, calls) \<Rightarrow> \<lparr>reply = res, provider_calls = calls\<rparr>
      | (Inl error, calls) \<Rightarrow>
          \<lparr>reply = send_json 500 [(''error'', JString (str ''Failed to find recipe video'')),
                                   (''details'', JString (message error))],
           provider_calls = calls\<rparr>)"

section \<open>A failing provider and a request\<close>



section \<open>The split and the fields of a text\<close>

lemma split_scan_no_sep: "sep \<notin> set s \<Longrightarrow> split_scan sep cur s = [cur @ s]"
  by (induction s arbitrary: cur) auto

lemma split_scan_at_sep:
  "sep \<notin> set a \<Longrightarrow> split_scan sep cur (a @ sep # rest) = (cur @ a) # split_scan sep [] rest"
  by (induction a arbitrary: cur) auto

lemma comma_fields_no_comma:
  assumes "comma \<notin> set s"
  shows "comma_fields s = [s]"
proof -
  from assms have dw: "dropWhile (\<lambda>c. c \<noteq> comma) s = []"
    and tw: "takeWhile (\<lambda>c. c \<noteq> comma) s = s"
    by (auto simp: takeWhile_eq_all_conv)
  have "comma_fields s =
     (case dropWhile (\<lambda>c. c \<noteq> comma) s of
        [] \<Rightarrow> [takeWhile (\<lambda>c. c \<noteq> comma) s]
      | _ # rest \<Rightarrow> takeWhile (\<lambda>c. c \<noteq> comma) s # comma_fields rest)"
    by (rule comma_fields.simps)
  also have "\<dots> = [s]"
    by (simp only: dw tw list.case)
  finally show ?thesis .
qed

lemma comma_fields_at_comma:
  assumes "comma \<notin> set a"
  shows "comma_fields (a @ comma # rest) = a # comma_fields rest"
proof -
  let ?s = "a @ comma # rest"
  from assms have dw: "dropWhile (\<lambda>c. c \<noteq> comma) ?s = comma # rest"
    by (induction a) auto
  from assms have tw: "takeWhile (\<lambda>c. c \<noteq> comma) ?s = a"
    by (induction a) auto
  have "comma_fields ?s =
     (case dropWhile (\<lambda>c. c \<noteq> comma) ?s of
        [] \<Rightarrow> [takeWhile (\<lambda>c. c \<noteq> comma) ?s]
      | _ # rest \<Rightarrow> takeWhile (\<lambda>c. c \<noteq> comma) ?s # comma_fields rest)"
    by (rule comma_fields.simps)
  also have "\<dots> = a # comma_fields rest"
    by (simp only: dw tw list.case)
  finally show ?thesis .
qed

lemma js_split_comma_fields: "js_split comma s = comma_fields s"
proof (induction s rule: length_induct)
  case (1 s)
  show ?case
  proof (cases "comma \<in> set s")
    case False
    then show ?thesis
      by (simp add: js_split_def split_scan_no_sep comma_fields_no_comma)
  next
    case True
    then obtain a rest where s: "s = a @ comma # rest" and a: "comma \<notin> set a"
      by (auto dest: split_list_first)
    then have "length rest < length s" by simp
    then have "js_split comma rest = comma_fields rest"
      using "1.IH" by blast
    then show ?thesis
      using a by (simp add: s js_split_def split_scan_at_sep comma_fields_at_comma)
  qed
qed

text \<open>
  The tokens of the split, joined again by the separator, are the text, and no token
  holds a separator: the split loses nothing and cuts at every comma.
\<close>

lemma split_scan_nonempty: "split_scan sep cur s \<noteq> []"
  by (induction s arbitrary: cur) simp_all

lemma join_with_Cons:
  "ts \<noteq> [] \<Longrightarrow> join_with sep (t # ts) = t @ sep # join_with sep ts"
  by (cases ts) simp_all

lemma split_scan_join: "join_with sep (split_scan sep cur s) = cur @ s"
proof (induction s arbitrary: cur)
  case Nil
  then show ?case by simp
next
  case (Cons c cs)
  show ?case
  proof (cases "c = sep")
    case True
    then show ?thesis
      by (simp add: join_with_Cons split_scan_nonempty Cons.IH)
  next
    case False
    then show ?thesis using Cons.IH [of "cur @ [c]"] by simp
  qed
qed

lemma js_split_join: "join_with sep (js_split sep s) = s"
  by (simp add: js_split_def split_scan_join)

lemma split_scan_sep_free:
  "sep \<notin> set cur \<Longrightarrow> t \<in> set (split_scan sep cur s) \<Longrightarrow> sep \<notin> set t"
proof (induction s arbitrary: cur)
  case Nil
  then show ?case by simp
next
  case (Cons a s)
  show ?case
  proof (cases "a = sep")
    case True
    with Cons.prems have "t = cur \<or> t \<in> set (split_scan sep [] s)" by simp
    then show ?thesis using Cons.IH [of "[]"] Cons.prems(1) by auto
  next
    case False
    with Cons.prems have "t \<in> set (split_scan sep (cur @ [a]) s)" by simp
    moreover have "sep \<notin> set (cur @ [a])" using False Cons.prems(1) by auto
    ultimately show ?thesis using Cons.IH by blast
  qed
qed

lemma js_split_sep_free: "t \<in> set (js_split sep s) \<Longrightarrow> sep \<notin> set t"
  unfolding js_split_def by (rule split_scan_sep_free [of sep "[]"]) simp_all

lemma comma_fields_join: "join_with comma (comma_fields s) = s"
  by (simp only: js_split_comma_fields [symmetric] js_split_join)

lemma comma_fields_comma_free: "t \<in> set (comma_fields s) \<Longrightarrow> comma \<notin> set t"
  using js_split_sep_free [of t comma s] by (simp add: js_split_comma_fields)

section \<open>Trimming\<close>

lemma trimStart_decomp: "s = takeWhile isWhiteSpace s @ trimStart s"
  by (simp add: trimStart_def)

lemma trimEnd_decomp: "s = trimEnd s @ rev (takeWhile isWhiteSpace (rev s))"
proof -
  have "rev (rev s) = rev (takeWhile isWhiteSpace (rev s) @ dropWhile isWhiteSpace (rev s))"
    by (simp only: takeWhile_dropWhile_id)
  then show ?thesis
    by (simp only: rev_rev_ident rev_append trimEnd_def)
qed

lemma js_trim_decomp:
  "s = takeWhile isWhiteSpace s @ js_trim s @ rev (takeWhile isWhiteSpace (rev (trimStart s)))"
proof -
  have "trimStart s = js_trim s @ rev (takeWhile isWhiteSpace (rev (trimStart s)))"
    unfolding js_trim_def by (rule trimEnd_decomp)
  then have "takeWhile isWhiteSpace s @ trimStart s =
      takeWhile isWhiteSpace s @ js_trim s @ rev (takeWhile isWhiteSpace (rev (trimStart s)))"
    by simp
  then show ?thesis
    by (simp only: trimStart_decomp [symmetric])
qed

lemma takeWhile_all: "c \<in> set (takeWhile P s) \<Longrightarrow> P c"
  by (rule set_takeWhileD [THEN conjunct2])


lemma trimEnd_last:
  assumes "trimEnd s \<noteq> []"
  shows "\<not> isWhiteSpace (last (trimEnd s))"
proof -
  from assms have ne: "dropWhile isWhiteSpace (rev s) \<noteq> []"
    by (simp only: trimEnd_def rev_is_Nil_conv not_False_eq_True)
  then have "\<not> isWhiteSpace (hd (dropWhile isWhiteSpace (rev s)))"
    by (rule hd_dropWhile)
  moreover have "last (trimEnd s) = hd (dropWhile isWhiteSpace (rev s))"
    unfolding trimEnd_def using ne by (simp only: last_rev)
  ultimately show ?thesis by simp
qed

lemma trimEnd_hd:
  assumes "trimEnd s \<noteq> []"
  shows "hd (trimEnd s) = hd s"
proof -
  have "hd s = hd (trimEnd s @ rev (takeWhile isWhiteSpace (rev s)))"
    using trimEnd_decomp [of s] by (rule arg_cong)
  also have "\<dots> = hd (trimEnd s)"
    using assms by (rule hd_append2)
  finally show ?thesis by (rule sym)
qed

lemma trimEnd_Nil: "trimEnd [] = []"
  by (simp add: trimEnd_def)

lemma js_trim_edges:
  assumes "js_trim s \<noteq> []"
  shows "\<not> isWhiteSpace (hd (js_trim s)) \<and> \<not> isWhiteSpace (last (js_trim s))"
proof
  from assms have ne: "trimStart s \<noteq> []"
    unfolding js_trim_def using trimEnd_Nil by metis
  then have "\<not> isWhiteSpace (hd (trimStart s))"
    unfolding trimStart_def by (rule hd_dropWhile)
  moreover have "hd (js_trim s) = hd (trimStart s)"
    using assms unfolding js_trim_def by (rule trimEnd_hd)
  ultimately show "\<not> isWhiteSpace (hd (js_trim s))" by simp
next
  show "\<not> isWhiteSpace (last (js_trim s))"
    using assms unfolding js_trim_def by (rule trimEnd_last)
qed

lemma js_trim_strip: "js_trim t = strip_whitespace t"
  by (simp add: js_trim_def trimEnd_def trimStart_def strip_whitespace_def)

section \<open>The ingredient list\<close>

lemma parse_ingredients_refines: "parse_ingredients s = ingredients_spec s"
proof -
  have "filter (\<lambda>item. length item > 0) (map js_trim ts)
        = [strip_whitespace t. t \<leftarrow> ts, strip_whitespace t \<noteq> []]" for ts
    by (induction ts) (simp_all add: js_trim_strip)
  then show ?thesis
    by (simp add: parse_ingredients_def ingredients_spec_def js_split_comma_fields)
qed

lemmas parse_simps = parse_ingredients_def js_split_def js_trim_def trimEnd_def trimStart_def
  isWhiteSpace_def comma_def str_def

lemma parse_ingredients_empty: "parse_ingredients [] = []"
  by (simp add: parse_ingredients_def js_split_def js_trim_def trimEnd_def trimStart_def)

lemma parse_ingredients_example:
  "parse_ingredients (str ''a, b ,c,'') = [str ''a'', str ''b'', str ''c'']"
  by (simp add: parse_simps)

text \<open>
  Every ingredient of the list is a non-empty string without a comma that neither starts
  nor ends with whitespace.
\<close>

lemma set_js_trim:
  assumes "c \<in> set (js_trim u)"
  shows "c \<in> set u"
proof -
  from assms have "c \<in> set (dropWhile isWhiteSpace (rev (dropWhile isWhiteSpace u)))"
    by (simp add: js_trim_def trimEnd_def trimStart_def)
  then have "c \<in> set (rev (dropWhile isWhiteSpace u))"
    by (rule set_dropWhileD)
  then have "c \<in> set (dropWhile isWhiteSpace u)"
    by simp
  then show ?thesis
    by (rule set_dropWhileD)
qed

lemma parse_ingredients_tokens:
  assumes "t \<in> set (parse_ingredients s)"
  shows "t \<noteq> [] \<and> comma \<notin> set t \<and> \<not> isWhiteSpace (hd t) \<and> \<not> isWhiteSpace (last t)"
proof -
  from assms obtain u where u: "u \<in> set (js_split comma s)" and t: "t = js_trim u"
    and ne: "t \<noteq> []"
    by (auto simp: parse_ingredients_def)
  from u have "comma \<notin> set u" by (rule js_split_sep_free)
  then have "comma \<notin> set t" using t set_js_trim by blast
  moreover from ne t have "\<not> isWhiteSpace (hd t) \<and> \<not> isWhiteSpace (last t)"
    using js_trim_edges [of u] by simp
  ultimately show ?thesis using ne by simp
qed

section \<open>The handlers\<close>

lemma analyze_image_success:
  assumes "fs (path f) = Some bytes"
    and "generateContent [Text analyze_instruction, InlineData (mimetype f) (base64 bytes)] = Inr answer"
  shows "analyze_image generateContent fs (Some f) =
     \<lparr>reply = send_json 200 [(''ingredients'', JArray (map JString (parse_ingredients answer)))],
      provider_calls = [[Text analyze_instruction, InlineData (mimetype f) (base64 bytes)]],
      files = fs(path f := None)\<rparr>"
  using assms
  by (simp add: analyze_image_def analyze_image_try_def readFileSync_def unlinkSync_def Let_def)

lemma analyze_image_provider_failure:
  assumes "fs (path f) = Some bytes"
    and "generateContent [Text analyze_instruction, InlineData (mimetype f) (base64 bytes)] = Inl err"
  shows "analyze_image generateContent fs (Some f) =
     \<lparr>reply = send_json 500 [(''error'', JString (str ''Failed to analyze image'')),
                             (''details'', JString (message err))],
      provider_calls = [[Text analyze_instruction, InlineData (mimetype f) (base64 bytes)]],
      files = fs\<rparr>"
  using assms
  by (simp add: analyze_image_def analyze_image_try_def readFileSync_def unlinkSync_def Let_def)

lemma find_recipe_video_missing_name:
  "body ''recipeName'' = None \<Longrightarrow>
   find_recipe_video generateContent body =
     \<lparr>reply = send_json 400 [(''error'', JString (str ''Recipe name is required''))],
      provider_calls = []\<rparr>"
  by (simp add: find_recipe_video_def find_recipe_video_try_def truthy_def)

lemma video_links_eq:
  "video_links q =
     (case encodeURIComponent q of
        Inl err \<Rightarrow> Inl err
      | Inr e \<Rightarrow>
          Inr [(''searchQuery'', JString q),
               (''youtubeEmbedUrl'', JString (embed_url @ e)),
               (''youtubeFirstResultUrl'', JString (embed_url @ e)),
               (''youtubeSearchUrl'', JString (results_url @ e))])"
  by (simp add: video_links_def split: sum.split)

lemma find_recipe_video_200:
  assumes "status (reply (find_recipe_video generateContent body)) = 200"
  shows "\<exists>text e.
     generateContent [Text (video_prompt (body ''recipeName'') (body ''ingredients'') (body ''cuisine''))] = Inr text \<and>
     encodeURIComponent (js_trim text) = Inr e \<and>
     find_recipe_video generateContent body =
       \<lparr>reply = send_json 200 [(''searchQuery'', JString (js_trim text)),
                  (''youtubeEmbedUrl'', JString (embed_url @ e)),
                  (''youtubeFirstResultUrl'', JString (embed_url @ e)),
                  (''youtubeSearchUrl'', JString (results_url @ e))],
        provider_calls = [[Text (video_prompt (body ''recipeName'') (body ''ingredients'') (body ''cuisine''))]]\<rparr>"
proof -
  let ?prompt = "video_prompt (body ''recipeName'') (body ''ingredients'') (body ''cuisine'')"
  have name: "truthy (body ''recipeName'')"
  proof (rule ccontr)
    assume "\<not> truthy (body ''recipeName'')"
    with assms show False
      by (simp add: find_recipe_video_def find_recipe_video_try_def send_json_def Let_def)
  qed
  from assms name obtain answer where answer: "generateContent [Text ?prompt] = Inr answer"
    by (cases "generateContent [Text ?prompt]")
      (auto simp: find_recipe_video_def find_recipe_video_try_def send_json_def Let_def)
  from assms name answer obtain e where e: "encodeURIComponent (js_trim answer) = Inr e"
    by (cases "encodeURIComponent (js_trim answer)")
      (auto simp: find_recipe_video_def find_recipe_video_try_def send_json_def video_links_eq Let_def)
  from name answer e show ?thesis
    by (simp add: find_recipe_video_def find_recipe_video_try_def video_links_eq Let_def)
qed

lemma generate_recipe_missing:
  "body ''ingredients'' = None \<Longrightarrow>
   generate_recipe generateContent body =
     \<lparr>reply = send_json 400 [(''error'', JString (str ''Ingredients are required''))],
      provider_calls = []\<rparr>"
  by (simp add: generate_recipe_def generate_recipe_try_def truthy_def)



text \<open>
  An upload that the filter or the size limit rejects never reaches the handler: the
  answer is the final handler's, the provider is not called and nothing is staged.
\<close>

lemma rejected_upload:
  assumes "\<not> prefix (str ''image/'') (part_mimetype file) \<or> fileSize < length (content file)"
  shows "status (reply (analyze_image_route generateContent staged fs (Some file))) = 500 \<and>
    provider_calls (analyze_image_route generateContent staged fs (Some file)) = [] \<and>
    files (analyze_image_route generateContent staged fs (Some file)) = fs"
  using assms
  by (auto simp: analyze_image_route_def upload_single_def fileFilter_def final_handler_def)

section \<open>The recipe prompt\<close>

lemma sublist_separator:
  assumes "sep \<notin> set m"
  shows "sublist m (xs @ sep # ys) \<longleftrightarrow> sublist m xs \<or> sublist m ys"
proof
  assume "sublist m (xs @ sep # ys)"
  then consider "sublist m xs" | "sublist m (sep # ys)"
    | xs1 xs2 where "m = xs1 @ xs2" "suffix xs1 xs" "prefix xs2 (sep # ys)"
    by (auto simp: sublist_append)
  then show "sublist m xs \<or> sublist m ys"
  proof cases
    case 1
    then show ?thesis by simp
  next
    case 2
    then show ?thesis using assms
      by (cases m) (auto simp: sublist_Cons_right prefix_Cons)
  next
    case 3
    show ?thesis
    proof (cases xs2)
      case Nil
      with 3 have "suffix m xs" by simp
      then show ?thesis by (auto simp: suffix_def)
    next
      case (Cons x xs2')
      with 3(3) have "x = sep" by (simp add: prefix_Cons)
      with Cons 3(1) assms show ?thesis by simp
    qed
  qed
next
  assume "sublist m xs \<or> sublist m ys"
  then show "sublist m (xs @ sep # ys)"
    by (auto simp: sublist_append sublist_Cons_right)
qed

lemma sublist_skip_prefix:
  assumes "a \<notin> set h"
  shows "sublist (a # m) (h @ s) \<longleftrightarrow> sublist (a # m) s"
  using assms by (induction h) (auto simp: sublist_Cons_right prefix_Cons)

lemma sublist_before_lines:
  assumes "sep \<notin> set m"
  shows "sublist m (xs @ concat (map (\<lambda>line. sep # f line) ls))
     \<longleftrightarrow> sublist m xs \<or> (\<exists>l\<in>set ls. sublist m (f l))"
proof (induction ls arbitrary: xs)
  case Nil
  then show ?case by simp
next
  case (Cons l ls)
  have "sublist m (xs @ concat (map (\<lambda>line. sep # f line) (l # ls)))
      \<longleftrightarrow> sublist m (xs @ sep # (f l @ concat (map (\<lambda>line. sep # f line) ls)))"
    by simp
  also have "\<dots> \<longleftrightarrow> sublist m xs \<or> sublist m (f l @ concat (map (\<lambda>line. sep # f line) ls))"
    by (rule sublist_separator [OF assms])
  also have "\<dots> \<longleftrightarrow> sublist m xs \<or> (sublist m (f l) \<or> (\<exists>l\<in>set ls. sublist m (f l)))"
    by (simp only: Cons.IH)
  finally show ?case by simp
qed

lemma no_T: "of_char CHR ''T'' \<notin> set recipe_prompt_head"
  by (simp add: recipe_prompt_head_def str_def)

lemma no_P: "of_char CHR ''P'' \<notin> set recipe_prompt_head"
  by (simp add: recipe_prompt_head_def str_def)

lemma cuisine_marker_lines:
  "\<forall>l\<in>set (''      '' # ''      '' # recipe_prompt_lines). \<not> sublist cuisine_marker (str l)"
  by (simp add: recipe_prompt_lines_def cuisine_marker_def str_def sublist_Cons_right prefix_Cons)

lemma dietary_marker_lines:
  "\<forall>l\<in>set (''      '' # ''      '' # recipe_prompt_lines). \<not> sublist dietary_marker (str l)"
  by (simp add: recipe_prompt_lines_def dietary_marker_def str_def sublist_Cons_right prefix_Cons)


lemma recipe_prompt_sentinels:
  "recipe_prompt ingredients (Some (str ''Any'')) (Some (str ''None'')) =
     (recipe_prompt_head @ to_text ingredients @ str ''.'') @
     concat (map (\<lambda>line. newline # str line) (''      '' # ''      '' # recipe_prompt_lines))"
  by (simp add: recipe_prompt_def cuisine_clause_def dietary_clause_def recipe_prompt_tail_def)

lemma recipe_prompt_unconstrained:
  "recipe_prompt ingredients None None =
     (recipe_prompt_head @ to_text ingredients @ str ''.'') @
     concat (map (\<lambda>line. newline # str line) (''      '' # ''      '' # recipe_prompt_lines))"
  by (simp add: recipe_prompt_def cuisine_clause_def dietary_clause_def recipe_prompt_tail_def
      truthy_def)

lemma cuisine_marker_shape:
  "cuisine_marker = of_char CHR ''T'' # tl cuisine_marker"
  "newline \<notin> set cuisine_marker" "of_char CHR ''.'' \<notin> set cuisine_marker"
  by (simp_all add: cuisine_marker_def newline_def str_def)

lemma dietary_marker_shape:
  "dietary_marker = of_char CHR ''P'' # tl dietary_marker"
  "newline \<notin> set dietary_marker" "of_char CHR ''.'' \<notin> set dietary_marker"
  by (simp_all add: dietary_marker_def newline_def str_def)

lemma marker_not_in_prompt:
  assumes shape: "m = a # tl m" and a: "a \<notin> set recipe_prompt_head"
    and nl: "newline \<notin> set m" and dot: "of_char CHR ''.'' \<notin> set m"
    and lines: "\<forall>l\<in>set (''      '' # ''      '' # recipe_prompt_lines). \<not> sublist m (str l)"
    and ing: "\<not> sublist m (to_text ingredients)"
  shows "\<not> sublist m (recipe_prompt ingredients (Some (str ''Any'')) (Some (str ''None'')))"
proof -
  have "sublist m (recipe_prompt_head @ to_text ingredients @ str ''.'')
      \<longleftrightarrow> sublist (a # tl m) (recipe_prompt_head @ to_text ingredients @ str ''.'')"
    using shape by simp
  also have "\<dots> \<longleftrightarrow> sublist (a # tl m) (to_text ingredients @ str ''.'')"
    using a by (rule sublist_skip_prefix)
  also have "\<dots> \<longleftrightarrow> sublist m (to_text ingredients @ of_char CHR ''.'' # [])"
    using shape by (simp add: str_def)
  also have "\<dots> \<longleftrightarrow> sublist m (to_text ingredients) \<or> sublist m []"
    using dot by (rule sublist_separator)
  also have "\<dots> \<longleftrightarrow> False"
    using ing shape by (metis list.discI sublist_Nil_right)
  finally have "\<not> sublist m (recipe_prompt_head @ to_text ingredients @ str ''.'')"
    by simp
  with lines show ?thesis
    by (simp only: recipe_prompt_sentinels sublist_before_lines [OF nl]) blast
qed

lemma cuisine_clause_opens_with_marker:
  "truthy cuisine \<Longrightarrow> cuisine \<noteq> Some (str ''Any'') \<Longrightarrow> prefix cuisine_marker (cuisine_clause cuisine)"
  by (simp add: cuisine_clause_def cuisine_marker_def)

lemma dietary_clause_opens_with_marker:
  "truthy restriction \<Longrightarrow> restriction \<noteq> Some (str ''None'') \<Longrightarrow>
   prefix dietary_marker (dietary_clause restriction)"
  by (simp add: dietary_clause_def dietary_marker_def)


section \<open>Evaluation of the encoder and of the video handler\<close>

lemmas uri_simps = uriUnescaped_def isLeadSurrogate_def isTrailSurrogate_def surrogatePair_def
  utf8_def hexDigit_def percent_def escaped_def uri_malformed_def

lemma encode_tikka:
  "encodeURIComponent (str ''chicken tikka masala recipe tutorial'') =
     Inr (str ''chicken%20tikka%20masala%20recipe%20tutorial'')"
  by (simp add: uri_simps str_def)


lemmas video_simps = find_recipe_video_def find_recipe_video_try_def video_links_eq truthy_def
  send_json_def field_def js_trim_def trimStart_def trimEnd_def isWhiteSpace_def


section \<open>The claims\<close>

text \<open>
  C1. For every provider response text the ingredient parser returns the list obtained
  by splitting the text on commas, trimming whitespace from each token, discarding the
  empty tokens and keeping the order of the rest; for the text \<open>a, b ,c,\<close> it returns
  \<open>a\<close>, \<open>b\<close>, \<open>c\<close>.
\<close>

theorem parse_ingredients_split_trim_discard:
  "parse_ingredients response_text = ingredients_spec response_text \<and>
   parse_ingredients (str ''a, b ,c,'') = [str ''a'', str ''b'', str ''c'']"
  by (intro conjI parse_ingredients_refines parse_ingredients_example)

text \<open>
  C2. The claim: whatever the outcome of the provider call, the staged upload is deleted
  before the response is sent. The handler deletes it only after a successful call: when
  the provider throws, the \<^verbatim>\<open>catch\<close> block answers 500 and the staged file is still
  there; the helper \<^verbatim>\<open>removeFile\<close> is never called. Below, the same upload with a
  failing and with an answering provider.
\<close>

theorem staged_file_kept_when_provider_fails:
  "status (reply (analyze_image_route (\<lambda>request. Inl (Error (str ''fetch failed'')))
      (str ''uploads/1-2.jpg'') Map.empty
      (Some \<lparr>part_mimetype = str ''image/jpeg'', content = [0xFF, 0xD8, 0xFF]\<rparr>))) = 500
   \<and> files (analyze_image_route (\<lambda>request. Inl (Error (str ''fetch failed'')))
      (str ''uploads/1-2.jpg'') Map.empty
      (Some \<lparr>part_mimetype = str ''image/jpeg'', content = [0xFF, 0xD8, 0xFF]\<rparr>))
      (str ''uploads/1-2.jpg'') = Some [0xFF, 0xD8, 0xFF]
   \<and> files (analyze_image_route (\<lambda>request. Inr (str ''tomato, onion, garlic''))
      (str ''uploads/1-2.jpg'') Map.empty
      (Some \<lparr>part_mimetype = str ''image/jpeg'', content = [0xFF, 0xD8, 0xFF]\<rparr>))
      (str ''uploads/1-2.jpg'') = None"
  by (simp add: analyze_image_route_def upload_single_def fileFilter_def fileSize_def
      analyze_image_provider_failure analyze_image_success send_json_def str_def)


text \<open>
  C3. The claim: an upload rejected for its content type or its size is answered with
  status 400 and the provider is not called. The provider is indeed not called, but the
  rejection is an error of the upload middleware that no handler of the application
  takes, and the answer is 500. Below, a text file, and an image one byte over the limit.
\<close>

theorem rejected_upload_answered_500:
  "status (reply (analyze_image_route (\<lambda>request. Inr (str ''tomato''))
      (str ''uploads/1-2.txt'') Map.empty
      (Some \<lparr>part_mimetype = str ''text/plain'', content = [0x68, 0x69]\<rparr>))) = 500
   \<and> provider_calls (analyze_image_route (\<lambda>request. Inr (str ''tomato''))
      (str ''uploads/1-2.txt'') Map.empty
      (Some \<lparr>part_mimetype = str ''text/plain'', content = [0x68, 0x69]\<rparr>)) = []
   \<and> status (reply (analyze_image_route (\<lambda>request. Inr (str ''tomato''))
      (str ''uploads/1-2.png'') Map.empty
      (Some \<lparr>part_mimetype = str ''image/png'', content = replicate (10 * 1024 * 1024 + 1) 0\<rparr>))) = 500
   \<and> provider_calls (analyze_image_route (\<lambda>request. Inr (str ''tomato''))
      (str ''uploads/1-2.png'') Map.empty
      (Some \<lparr>part_mimetype = str ''image/png'', content = replicate (10 * 1024 * 1024 + 1) 0\<rparr>)) = []"
  by (simp add: analyze_image_route_def upload_single_def fileFilter_def fileSize_def
      final_handler_def str_def)

text \<open>
  C4. For a request with cuisine \<open>Any\<close> and dietaryRestrictions \<open>None\<close> the prompt
  has neither a cuisine clause nor a dietary clause: both clauses are empty, the prompt
  is the one of a request with no constraint at all, and the opening words of a clause
  occur in it only if the ingredients text itself holds them.
\<close>

theorem sentinel_values_suppressed:
  "cuisine_clause (Some (str ''Any'')) = [] \<and>
   dietary_clause (Some (str ''None'')) = [] \<and>
   recipe_prompt ingredients (Some (str ''Any'')) (Some (str ''None'')) =
     recipe_prompt ingredients None None \<and>
   (\<not> sublist cuisine_marker (to_text ingredients) \<longrightarrow>
      \<not> sublist cuisine_marker
          (recipe_prompt ingredients (Some (str ''Any'')) (Some (str ''None'')))) \<and>
   (\<not> sublist dietary_marker (to_text ingredients) \<longrightarrow>
      \<not> sublist dietary_marker
          (recipe_prompt ingredients (Some (str ''Any'')) (Some (str ''None''))))"
proof (intro conjI impI)
  show "cuisine_clause (Some (str ''Any'')) = []"
    by (simp add: cuisine_clause_def)
  show "dietary_clause (Some (str ''None'')) = []"
    by (simp add: dietary_clause_def)
  show "recipe_prompt ingredients (Some (str ''Any'')) (Some (str ''None'')) =
     recipe_prompt ingredients None None"
    by (simp only: recipe_prompt_sentinels recipe_prompt_unconstrained)
next
  assume "\<not> sublist cuisine_marker (to_text ingredients)"
  then show "\<not> sublist cuisine_marker
          (recipe_prompt ingredients (Some (str ''Any'')) (Some (str ''None'')))"
    by (rule marker_not_in_prompt
        [OF cuisine_marker_shape(1) no_T cuisine_marker_shape(2,3) cuisine_marker_lines])
next
  assume "\<not> sublist dietary_marker (to_text ingredients)"
  then show "\<not> sublist dietary_marker
          (recipe_prompt ingredients (Some (str ''Any'')) (Some (str ''None'')))"
    by (rule marker_not_in_prompt
        [OF dietary_marker_shape(1) no_P dietary_marker_shape(2,3) dietary_marker_lines])
qed

theorem sentinel_values_suppressed_witness:
  "\<not> sublist cuisine_marker (str ''rice, egg'') \<and>
   \<not> sublist dietary_marker (str ''rice, egg'') \<and>
   \<not> sublist cuisine_marker
       (recipe_prompt (Some (str ''rice, egg'')) (Some (str ''Any'')) (Some (str ''None''))) \<and>
   \<not> sublist dietary_marker
       (recipe_prompt (Some (str ''rice, egg'')) (Some (str ''Any'')) (Some (str ''None'')))"
  using sentinel_values_suppressed
    [of "Some (str ''rice, egg'')", THEN conjunct2, THEN conjunct2, THEN conjunct2]
  by (simp add: to_text_def cuisine_marker_def dietary_marker_def str_def
      sublist_Cons_right prefix_Cons)

text \<open>
  C5. A generate-recipe request whose body has no \<open>ingredients\<close> field is answered with
  status 400 and the error \<open>Ingredients are required\<close>, and the provider is not called.
\<close>

theorem generate_recipe_requires_ingredients:
  assumes "body ''ingredients'' = None"
  shows "generate_recipe generateContent body =
     \<lparr>reply = send_json 400 [(''error'', JString (str ''Ingredients are required''))],
      provider_calls = []\<rparr>"
  using assms by (rule generate_recipe_missing)

theorem generate_recipe_requires_ingredients_witness:
  "[''cuisine'' \<mapsto> str ''Thai''] ''ingredients'' = None \<and>
   generate_recipe (\<lambda>request. Inr (str ''Pad thai'')) [''cuisine'' \<mapsto> str ''Thai''] =
     \<lparr>reply = send_json 400 [(''error'', JString (str ''Ingredients are required''))],
      provider_calls = []\<rparr>"
  using generate_recipe_requires_ingredients
    [of "[''cuisine'' \<mapsto> str ''Thai'']" "\<lambda>request. Inr (str ''Pad thai'')"]
  by simp




text \<open>
  C7. In every successful find-recipe-video response the URLs are the fixed templates
  followed by the URI-encoded search query; for the search query
  \<open>chicken tikka masala recipe tutorial\<close> the \<open>youtubeSearchUrl\<close> is
  \<^verbatim>\<open>https://www.youtube.com/results?search_query=chicken%20tikka%20masala%20recipe%20tutorial\<close>.
\<close>

theorem video_urls_from_search_query:
  "(status (reply (find_recipe_video generateContent body)) = 200 \<longrightarrow>
      (\<exists>query encoded.
         field ''searchQuery'' (reply (find_recipe_video generateContent body)) =
           Some (JString query) \<and>
         encodeURIComponent query = Inr encoded \<and>
         field ''youtubeEmbedUrl'' (reply (find_recipe_video generateContent body)) =
           Some (JString (str ''https://www.youtube-nocookie.com/embed?search='' @ encoded)) \<and>
         field ''youtubeFirstResultUrl'' (reply (find_recipe_video generateContent body)) =
           Some (JString (str ''https://www.youtube-nocookie.com/embed?search='' @ encoded)) \<and>
         field ''youtubeSearchUrl'' (reply (find_recipe_video generateContent body)) =
           Some (JString (str ''https://www.youtube.com/results?search_query='' @ encoded)))) \<and>
   (status (reply (find_recipe_video generateContent body)) = 200 \<and>
    field ''searchQuery'' (reply (find_recipe_video generateContent body)) =
      Some (JString (str ''chicken tikka masala recipe tutorial'')) \<longrightarrow>
      field ''youtubeSearchUrl'' (reply (find_recipe_video generateContent body)) =
        Some (JString (str (''https://www.youtube.com/results?search_query='' @
                            ''chicken%20tikka%20masala%20recipe%20tutorial''))))"
proof (intro conjI impI)
  assume "status (reply (find_recipe_video generateContent body)) = 200"
  then obtain raw e where e: "encodeURIComponent (js_trim raw) = Inr e"
    and "find_recipe_video generateContent body =
       \<lparr>reply = send_json 200 [(''searchQuery'', JString (js_trim raw)),
                  (''youtubeEmbedUrl'', JString (embed_url @ e)),
                  (''youtubeFirstResultUrl'', JString (embed_url @ e)),
                  (''youtubeSearchUrl'', JString (results_url @ e))],
        provider_calls = [[Text (video_prompt (body ''recipeName'') (body ''ingredients'')
          (body ''cuisine''))]]\<rparr>"
    using find_recipe_video_200 by blast
  then show "\<exists>query encoded.
         field ''searchQuery'' (reply (find_recipe_video generateContent body)) =
           Some (JString query) \<and>
         encodeURIComponent query = Inr encoded \<and>
         field ''youtubeEmbedUrl'' (reply (find_recipe_video generateContent body)) =
           Some (JString (str ''https://www.youtube-nocookie.com/embed?search='' @ encoded)) \<and>
         field ''youtubeFirstResultUrl'' (reply (find_recipe_video generateContent body)) =
           Some (JString (str ''https://www.youtube-nocookie.com/embed?search='' @ encoded)) \<and>
         field ''youtubeSearchUrl'' (reply (find_recipe_video generateContent body)) =
           Some (JString (str ''https://www.youtube.com/results?search_query='' @ encoded))"
    by (simp add: send_json_def field_def embed_url_def results_url_def)
next
  assume a: "status (reply (find_recipe_video generateContent body)) = 200 \<and>
    field ''searchQuery'' (reply (find_recipe_video generateContent body)) =
      Some (JString (str ''chicken tikka masala recipe tutorial''))"
  then obtain raw e where e: "encodeURIComponent (js_trim raw) = Inr e"
    and r: "find_recipe_video generateContent body =
       \<lparr>reply = send_json 200 [(''searchQuery'', JString (js_trim raw)),
                  (''youtubeEmbedUrl'', JString (embed_url @ e)),
                  (''youtubeFirstResultUrl'', JString (embed_url @ e)),
                  (''youtubeSearchUrl'', JString (results_url @ e))],
        provider_calls = [[Text (video_prompt (body ''recipeName'') (body ''ingredients'')
          (body ''cuisine''))]]\<rparr>"
    using find_recipe_video_200 by blast
  from a r have "js_trim raw = str ''chicken tikka masala recipe tutorial''"
    by (simp add: send_json_def field_def)
  with e have "e = str ''chicken%20tikka%20masala%20recipe%20tutorial''"
    by (simp add: encode_tikka)
  then show "field ''youtubeSearchUrl'' (reply (find_recipe_video generateContent body)) =
        Some (JString (str (''https://www.youtube.com/results?search_query='' @
                            ''chicken%20tikka%20masala%20recipe%20tutorial'')))"
    by (simp add: r send_json_def field_def results_url_def str_def)
qed

theorem video_urls_from_search_query_witness:
  "status (reply (find_recipe_video
      (\<lambda>request. Inr (str '' chicken tikka masala recipe tutorial\<newline>''))
      [''recipeName'' \<mapsto> str ''Chicken Tikka Masala''])) = 200 \<and>
   field ''searchQuery'' (reply (find_recipe_video
      (\<lambda>request. Inr (str '' chicken tikka masala recipe tutorial\<newline>''))
      [''recipeName'' \<mapsto> str ''Chicken Tikka Masala''])) =
     Some (JString (str ''chicken tikka masala recipe tutorial'')) \<and>
   field ''youtubeSearchUrl'' (reply (find_recipe_video
      (\<lambda>request. Inr (str '' chicken tikka masala recipe tutorial\<newline>''))
      [''recipeName'' \<mapsto> str ''Chicken Tikka Masala''])) =
     Some (JString (str (''https://www.youtube.com/results?search_query='' @
                         ''chicken%20tikka%20masala%20recipe%20tutorial'')))"
proof -
  have e: "encodeURIComponent (str ''chicken tikka masala recipe tutorial'') =
     Inr (str ''chicken%20tikka%20masala%20recipe%20tutorial'')"
    by (simp add: uri_simps str_def)
  have t: "js_trim (str '' chicken tikka masala recipe tutorial\<newline>'') =
      str ''chicken tikka masala recipe tutorial''"
    by (simp add: js_trim_def trimStart_def trimEnd_def isWhiteSpace_def str_def)
  have s: "status (reply (find_recipe_video
      (\<lambda>request. Inr (str '' chicken tikka masala recipe tutorial\<newline>''))
      [''recipeName'' \<mapsto> str ''Chicken Tikka Masala''])) = 200"
    and q: "field ''searchQuery'' (reply (find_recipe_video
      (\<lambda>request. Inr (str '' chicken tikka masala recipe tutorial\<newline>''))
      [''recipeName'' \<mapsto> str ''Chicken Tikka Masala''])) =
     Some (JString (str ''chicken tikka masala recipe tutorial''))"
    by (simp_all add: find_recipe_video_def find_recipe_video_try_def video_links_eq
        truthy_def send_json_def field_def t e) (simp_all add: str_def)
  from s q video_urls_from_search_query
    [of "\<lambda>request. Inr (str '' chicken tikka masala recipe tutorial\<newline>'')"
        "[''recipeName'' \<mapsto> str ''Chicken Tikka Masala'']", THEN conjunct2]
  show ?thesis by blast
qed

text \<open>
  C8. A find-recipe-video request whose body has no \<open>recipeName\<close> field is answered
  with status 400 and the provider is not called; on success the \<open>searchQuery\<close> of the
  response is the provider's text with leading and trailing whitespace trimmed.
\<close>

theorem find_recipe_video_name_and_query:
  "(body ''recipeName'' = None \<longrightarrow>
      find_recipe_video generateContent body =
        \<lparr>reply = send_json 400 [(''error'', JString (str ''Recipe name is required''))],
         provider_calls = []\<rparr>) \<and>
   (status (reply (find_recipe_video generateContent body)) = 200 \<longrightarrow>
      (\<exists>raw. generateContent [Text (video_prompt (body ''recipeName'') (body ''ingredients'')
                 (body ''cuisine''))] = Inr raw \<and>
             field ''searchQuery'' (reply (find_recipe_video generateContent body)) =
               Some (JString (js_trim raw))))"
proof (intro conjI impI)
  assume "body ''recipeName'' = None"
  then show "find_recipe_video generateContent body =
        \<lparr>reply = send_json 400 [(''error'', JString (str ''Recipe name is required''))],
         provider_calls = []\<rparr>"
    by (rule find_recipe_video_missing_name)
next
  assume "status (reply (find_recipe_video generateContent body)) = 200"
  then obtain raw e where
    "generateContent [Text (video_prompt (body ''recipeName'') (body ''ingredients'')
       (body ''cuisine''))] = Inr raw"
    and "find_recipe_video generateContent body =
       \<lparr>reply = send_json 200 [(''searchQuery'', JString (js_trim raw)),
                  (''youtubeEmbedUrl'', JString (embed_url @ e)),
                  (''youtubeFirstResultUrl'', JString (embed_url @ e)),
                  (''youtubeSearchUrl'', JString (results_url @ e))],
        provider_calls = [[Text (video_prompt (body ''recipeName'') (body ''ingredients'')
          (body ''cuisine''))]]\<rparr>"
    using find_recipe_video_200 by blast
  then show "\<exists>raw. generateContent [Text (video_prompt (body ''recipeName'') (body ''ingredients'')
                 (body ''cuisine''))] = Inr raw \<and>
             field ''searchQuery'' (reply (find_recipe_video generateContent body)) =
               Some (JString (js_trim raw))"
    by (simp add: send_json_def field_def)
qed

theorem find_recipe_video_name_and_query_witness:
  "find_recipe_video (\<lambda>request. Inr (str ''dal tadka recipe'')) [''cuisine'' \<mapsto> str ''Indian''] =
     \<lparr>reply = send_json 400 [(''error'', JString (str ''Recipe name is required''))],
      provider_calls = []\<rparr> \<and>
   status (reply (find_recipe_video (\<lambda>request. Inr (str ''  how to make dal tadka ''))
      [''recipeName'' \<mapsto> str ''Dal Tadka''])) = 200 \<and>
   field ''searchQuery'' (reply (find_recipe_video (\<lambda>request. Inr (str ''  how to make dal tadka ''))
      [''recipeName'' \<mapsto> str ''Dal Tadka''])) = Some (JString (str ''how to make dal tadka''))"
proof -
  have s: "status (reply (find_recipe_video (\<lambda>request. Inr (str ''  how to make dal tadka ''))
      [''recipeName'' \<mapsto> str ''Dal Tadka''])) = 200"
    by (simp add: video_simps uri_simps str_def)
  have t: "js_trim (str ''  how to make dal tadka '') = str ''how to make dal tadka''"
    by (simp add: js_trim_def trimStart_def trimEnd_def isWhiteSpace_def str_def)
  from s t
    find_recipe_video_name_and_query
      [of "[''cuisine'' \<mapsto> str ''Indian'']" "\<lambda>request. Inr (str ''dal tadka recipe'')",
       THEN conjunct1]
    find_recipe_video_name_and_query
      [of "[''recipeName'' \<mapsto> str ''Dal Tadka'']"
          "\<lambda>request. Inr (str ''  how to make dal tadka '')", THEN conjunct2]
  show ?thesis by simp
qed


text \<open>
  C9. The parse step never fails: whatever text the provider gives for a staged image,
  the handler answers 200 with the parsed list; the empty text gives the empty list.
\<close>

theorem parse_step_never_fails:
  assumes "fs (path f) = Some bytes"
    and "generateContent [Text analyze_instruction, InlineData (mimetype f) (base64 bytes)]
           = Inr response_text"
  shows "reply (analyze_image generateContent fs (Some f)) =
      send_json 200 [(''ingredients'', JArray (map JString (parse_ingredients response_text)))] \<and>
    parse_ingredients [] = []"
  using assms analyze_image_success [of fs f bytes generateContent response_text]
  by (simp add: parse_ingredients_empty)

theorem parse_step_never_fails_witness:
  "reply (analyze_image (\<lambda>request. Inr []) [str ''uploads/1-2.jpg'' \<mapsto> [0xFF, 0xD8, 0xFF]]
      (Some \<lparr>path = str ''uploads/1-2.jpg'', mimetype = str ''image/jpeg''\<rparr>)) =
    send_json 200 [(''ingredients'', JArray [])]"
  using parse_step_never_fails
    [of "[str ''uploads/1-2.jpg'' \<mapsto> [0xFF, 0xD8, 0xFF]]"
        "\<lparr>path = str ''uploads/1-2.jpg'', mimetype = str ''image/jpeg''\<rparr>"
        "[0xFF, 0xD8, 0xFF]" "\<lambda>request. Inr []" "[]"]
  by simp

text \<open>
  C10. In every successful find-recipe-video response the fields \<open>youtubeEmbedUrl\<close> and
  \<open>youtubeFirstResultUrl\<close> are the same string: the embed template followed by the
  encoded search query.
\<close>

theorem embed_and_first_result_urls_equal:
  assumes "status (reply (find_recipe_video generateContent body)) = 200"
  shows "field ''youtubeEmbedUrl'' (reply (find_recipe_video generateContent body)) =
      field ''youtubeFirstResultUrl'' (reply (find_recipe_video generateContent body)) \<and>
    (\<exists>query encoded.
       field ''searchQuery'' (reply (find_recipe_video generateContent body)) =
         Some (JString query) \<and>
       encodeURIComponent query = Inr encoded \<and>
       field ''youtubeEmbedUrl'' (reply (find_recipe_video generateContent body)) =
         Some (JString (str ''https://www.youtube-nocookie.com/embed?search='' @ encoded)))"
proof -
  from assms obtain raw e where e: "encodeURIComponent (js_trim raw) = Inr e"
    and "find_recipe_video generateContent body =
       \<lparr>reply = send_json 200 [(''searchQuery'', JString (js_trim raw)),
                  (''youtubeEmbedUrl'', JString (embed_url @ e)),
                  (''youtubeFirstResultUrl'', JString (embed_url @ e)),
                  (''youtubeSearchUrl'', JString (results_url @ e))],
        provider_calls = [[Text (video_prompt (body ''recipeName'') (body ''ingredients'')
          (body ''cuisine''))]]\<rparr>"
    using find_recipe_video_200 by blast
  then show ?thesis
    by (simp add: send_json_def field_def embed_url_def)
qed


theorem embed_and_first_result_urls_equal_witness:
  "status (reply (find_recipe_video (\<lambda>request. Inr (str ''egg fried rice''))
      [''recipeName'' \<mapsto> str ''Fried rice''])) = 200 \<and>
   field ''youtubeEmbedUrl'' (reply (find_recipe_video (\<lambda>request. Inr (str ''egg fried rice''))
      [''recipeName'' \<mapsto> str ''Fried rice''])) =
   field ''youtubeFirstResultUrl'' (reply (find_recipe_video (\<lambda>request. Inr (str ''egg fried rice''))
      [''recipeName'' \<mapsto> str ''Fried rice'']))"
proof -
  have s: "status (reply (find_recipe_video (\<lambda>request. Inr (str ''egg fried rice''))
      [''recipeName'' \<mapsto> str ''Fried rice''])) = 200"
    by (simp add: video_simps uri_simps str_def)
  from s embed_and_first_result_urls_equal [OF s]
  show ?thesis by simp
qed


end
